theory Spec2Isabelle
  imports Main "HOL-Library.Word"
begin

unbundle bit_operations_syntax

section \<open>Data model of \<^verbatim>\<open>vdma_common.h\<close>\<close>

type_synonym u8 = "8 word"
type_synonym u16 = "16 word"
type_synonym u32 = "32 word"
type_synonym u64 = "64 word"

text \<open>\<^verbatim>\<open>#define INVALID_VDMA_ADDRESS (0)\<close> and the register offsets of a channel window.\<close>

definition INVALID_VDMA_ADDRESS :: u64 where
  "INVALID_VDMA_ADDRESS = 0"

definition CHANNEL_NUM_AVAIL_OFFSET :: nat where
  "CHANNEL_NUM_AVAIL_OFFSET = 2"

definition CHANNEL_NUM_PROC_OFFSET :: nat where
  "CHANNEL_NUM_PROC_OFFSET = 4"

text \<open>
  \<^verbatim>\<open>struct hailo_vdma_descriptor\<close>: four 32-bit words. The bit packing of the words is
  fixed by the hardware and is not part of \<^verbatim>\<open>vdma_common.h\<close>, so each packed word is kept
  as the tuple of the fields its name lists: (page size, descriptor control),
  (low address bits, data id), high address bits, (remaining page size, status).
\<close>

record hailo_vdma_descriptor =
  PageSize_DescControl :: "u16 \<times> u64"
  AddrL_rsvd_DataID :: "u32 \<times> u8"
  AddrH :: u32
  RemainingPageSize_Status :: "u16 \<times> u16"

text \<open>
  \<^verbatim>\<open>struct hailo_vdma_descriptors_list\<close>. The pointer \<^verbatim>\<open>desc_list\<close> is the array it points
  to.
\<close>

record hailo_vdma_descriptors_list =
  desc_list :: "hailo_vdma_descriptor list"
  desc_count :: u32
  desc_count_mask :: u32
  desc_page_size :: u16
  is_circular :: bool

text \<open>
  \<^verbatim>\<open>struct hailo_channel_interrupt_timestamp\<close> is declared in another header; its
  contents play no part here.
\<close>

typedecl hailo_channel_interrupt_timestamp

record hailo_channel_interrupt_timestamp_list =
  ts_head :: int
  ts_tail :: int
  timestamps :: "hailo_channel_interrupt_timestamp list"

text \<open>
  \<^verbatim>\<open>struct hailo_vdma_mapped_transfer_buffer\<close>. The scatter-gather table behind the pointer
  is its list of DMA segments (bus address, length); the opaque pointer is an address.
  The field \<^verbatim>\<open>size\<close> is \<open>size_bytes\<close> here (\<open>size\<close> is a constant of HOL).
\<close>

type_synonym sg_table = "(u64 \<times> u32) list"

record hailo_vdma_mapped_transfer_buffer =
  sg_table :: sg_table
  size_bytes :: u32
  offset :: u32
  opaque :: nat

record hailo_ongoing_transfer =
  last_desc :: u16
  buffers_count :: u8
  buffers :: "hailo_vdma_mapped_transfer_buffer list"
  dirty_descs_count :: u8
  dirty_descs :: "u16 list"
  is_debug :: bool

text \<open>
  \<^verbatim>\<open>struct hailo_ongoing_transfers_list\<close>: two \<^verbatim>\<open>unsigned long\<close> counters and an array of
  \<^verbatim>\<open>HAILO_VDMA_MAX_ONGOING_TRANSFERS\<close> entries. The macro is defined in another header;
  the capacity is the length of the array.
\<close>

record hailo_ongoing_transfers_list =
  head :: u64
  tail :: u64
  transfers :: "hailo_ongoing_transfer list"

record hailo_vdma_channel_state =
  num_avail :: u16
  num_proc :: u16
  state_desc_count_mask :: u32

text \<open>
  \<^verbatim>\<open>struct hailo_vdma_channel\<close>. A register window (\<^verbatim>\<open>u8 __iomem *\<close>) is the contents of
  its 16-bit registers by byte offset; \<^verbatim>\<open>last_desc_list\<close> is the address of the list
  (0 for \<^verbatim>\<open>NULL\<close>).
\<close>

type_synonym iomem = "nat \<Rightarrow> u16"

record hailo_vdma_channel =
  index :: u8
  host_regs :: iomem
  device_regs :: iomem
  last_desc_list :: nat
  state :: hailo_vdma_channel_state
  ongoing_transfers :: hailo_ongoing_transfers_list
  timestamp_measure_enabled :: bool
  timestamp_list :: hailo_channel_interrupt_timestamp_list

text \<open>
  \<^verbatim>\<open>struct hailo_vdma_engine\<close>; its field \<^verbatim>\<open>index\<close> is \<open>engine_index\<close> here, and the
  field \<^verbatim>\<open>desc_count_mask\<close> of the channel state is \<open>state_desc_count_mask\<close> (a record
  field name is global to the theory).
\<close>

record hailo_vdma_engine =
  engine_index :: u8
  enabled_channels :: u32
  interrupted_channels :: u32
  channels :: "hailo_vdma_channel list"

text \<open>
  \<^verbatim>\<open>struct hailo_vdma_hw\<close> with its operations table: the address codec is a function
  pointer, here a function.
\<close>

record hailo_vdma_hw =
  encode_desc_dma_address_range :: "u64 \<Rightarrow> u64 \<Rightarrow> u32 \<Rightarrow> u8 \<Rightarrow> u64"
  ddr_data_id :: u8
  host_interrupts_bitmask :: u64
  device_interrupts_bitmask :: u64
  src_channels_bitmask :: u32

section \<open>The interrupt bitmap protocol (inline functions of the header)\<close>

text \<open>
  Both functions take the engine by pointer; they are modelled by state passing and
  return the result together with the engine after the call.
\<close>

definition hailo_vdma_engine_got_interrupt ::
  "hailo_vdma_engine \<Rightarrow> u32 \<Rightarrow> bool \<times> hailo_vdma_engine" where
  "hailo_vdma_engine_got_interrupt engine channels_bitmap =
     (let any_interrupt = (0 \<noteq> (channels_bitmap AND interrupted_channels engine));
          any_disabled = (channels_bitmap \<noteq> (channels_bitmap AND enabled_channels engine))
      in ((any_disabled \<or> any_interrupt), engine))"

definition hailo_vdma_engine_read_interrupts ::
  "hailo_vdma_engine \<Rightarrow> u32 \<Rightarrow> u32 \<times> hailo_vdma_engine" where
  "hailo_vdma_engine_read_interrupts engine requested_bitmap =
     (let irq_channels_bitmap =
            requested_bitmap AND enabled_channels engine AND interrupted_channels engine;
          engine' = engine\<lparr>interrupted_channels :=
                      interrupted_channels engine AND NOT irq_channels_bitmap\<rparr>
      in (irq_channels_bitmap, engine'))"

section \<open>The index mask of a descriptors list\<close>

text \<open>
  The comment on \<^verbatim>\<open>desc_count_mask\<close>: the nearest power of 2 to \<^verbatim>\<open>desc_count\<close> (including
  \<^verbatim>\<open>desc_count\<close>), minus 1. \<open>nearest_pow2_from p n\<close> doubles \<open>p\<close> until it reaches \<open>n\<close>.
\<close>

function nearest_pow2_from :: "nat \<Rightarrow> nat \<Rightarrow> nat" where
  "nearest_pow2_from p n = (if p = 0 \<or> n \<le> p then p else nearest_pow2_from (2 * p) n)"
  by pat_completeness auto
termination
  by (relation "measure (\<lambda>(p, n). n - p)") auto

definition nearest_pow2 :: "nat \<Rightarrow> nat" where
  "nearest_pow2 n = nearest_pow2_from 1 n"

definition desc_count_mask_ok :: "hailo_vdma_descriptors_list \<Rightarrow> bool" where
  "desc_count_mask_ok dl =
     (unat (desc_count_mask dl) = nearest_pow2 (unat (desc_count dl)) - 1)"

section \<open>The transfer programmer\<close>

text \<open>
  The header declares the functions of this and the following sections; their bodies are
  not part of these sources. Each is modelled from the design document of the driver,
  section by section, and returns the values it writes through its pointer arguments
  next to its result. A negative return value is \<open>Inl\<close> of the error kind (section 7 of
  the document), a count is \<open>Inr\<close>.
\<close>

datatype vdma_error =
  INVALID_ADDRESS_ENCODING
  | INSUFFICIENT_DESCRIPTORS
  | QUEUE_FULL

text \<open>
  Modelled from the spec: \<^verbatim>\<open>enum hailo_vdma_interrupts_domain\<close> is declared in another
  header. The glossary names the parties a descriptor can signal: host, device, or none.
\<close>

datatype hailo_vdma_interrupts_domain =
  HAILO_VDMA_INTERRUPTS_DOMAIN_NONE
  | HAILO_VDMA_INTERRUPTS_DOMAIN_DEVICE
  | HAILO_VDMA_INTERRUPTS_DOMAIN_HOST

text \<open>
  Modelled from the spec: the helper that picks the control bits of a domain is missing.
  \<^verbatim>\<open>struct hailo_vdma_hw\<close> holds the bitmask needed on a descriptor to enable interrupts
  for the host and for the device; no domain means no bit.
\<close>

definition get_interrupts_bitmask ::
  "hailo_vdma_hw \<Rightarrow> hailo_vdma_interrupts_domain \<Rightarrow> u64" where
  "get_interrupts_bitmask vdma_hw interrupts_domain =
     (case interrupts_domain of
        HAILO_VDMA_INTERRUPTS_DOMAIN_NONE \<Rightarrow> 0
      | HAILO_VDMA_INTERRUPTS_DOMAIN_DEVICE \<Rightarrow> device_interrupts_bitmask vdma_hw
      | HAILO_VDMA_INTERRUPTS_DOMAIN_HOST \<Rightarrow> host_interrupts_bitmask vdma_hw)"

text \<open>
  Modelled from the spec: the write of one descriptor is missing. A descriptor encodes
  the address of its range, its size and the data id; it is written with the default
  control bits (no interrupt requested); its status word belongs to the hardware.
\<close>

definition hailo_vdma_program_descriptor ::
  "hailo_vdma_descriptor \<Rightarrow> u64 \<Rightarrow> u16 \<Rightarrow> u8 \<Rightarrow> hailo_vdma_descriptor" where
  "hailo_vdma_program_descriptor descriptor dma_address page_size data_id =
     descriptor\<lparr>PageSize_DescControl := (page_size, 0),
                AddrL_rsvd_DataID := (ucast dma_address, data_id),
                AddrH := ucast (drop_bit 32 dma_address)\<rparr>"

definition write_desc ::
  "hailo_vdma_descriptors_list \<Rightarrow> u32 \<Rightarrow> u64 \<Rightarrow> u16 \<Rightarrow> u8 \<Rightarrow> hailo_vdma_descriptors_list" where
  "write_desc dl i dma_address page_size data_id =
     dl\<lparr>desc_list := (desc_list dl)[unat i :=
          hailo_vdma_program_descriptor (desc_list dl ! unat i) dma_address page_size data_id]\<rparr>"

text \<open>
  The number of descriptors a chunk requires: one per page, the last one possibly
  partial.
\<close>

definition descs_needed :: "u32 \<Rightarrow> u16 \<Rightarrow> nat" where
  "descs_needed chunk_size page_size =
     (unat chunk_size + unat page_size - 1) div unat page_size"

text \<open>
  The loop over the descriptors of a chunk: \<open>n\<close> descriptors are still to be written, the
  next one at \<open>desc_index\<close> (masked with the list's mask) for the range that starts at
  \<open>addr\<close>; \<open>remaining\<close> bytes of the chunk are not yet covered. Every descriptor takes the
  list's page size except the final one, which takes what remains.
\<close>

fun program_descs ::
  "hailo_vdma_descriptors_list \<Rightarrow> u32 \<Rightarrow> u64 \<Rightarrow> nat \<Rightarrow> nat \<Rightarrow> u8 \<Rightarrow> hailo_vdma_descriptors_list"
  where
  "program_descs dl desc_index addr remaining 0 data_id = dl"
| "program_descs dl desc_index addr remaining (Suc n) data_id =
     program_descs
       (write_desc dl (desc_index AND desc_count_mask dl) addr
          (if n = 0 then of_nat remaining else desc_page_size dl) data_id)
       (desc_index + 1) (addr + ucast (desc_page_size dl))
       (remaining - unat (desc_page_size dl)) n data_id"

text \<open>
  Modelled from the spec: the body of \<^verbatim>\<open>hailo_vdma_program_descriptors_in_chunk\<close> is
  missing. Section 4.2: it encodes \<open>chunk_addr\<close> via the codec, writes successive
  descriptors starting at the start index (wrapping via the list's mask), each sized at
  the list's page size except the final one which takes the residue; it fails if the
  chunk requires more descriptors than fit between the start index and the maximal index
  (both ends counted), or if the codec reports invalid. Nothing is written on failure.
\<close>

definition hailo_vdma_program_descriptors_in_chunk ::
  "hailo_vdma_hw \<Rightarrow> u64 \<Rightarrow> u32 \<Rightarrow> hailo_vdma_descriptors_list \<Rightarrow> u32 \<Rightarrow> u32 \<Rightarrow> u8 \<Rightarrow> u8
    \<Rightarrow> (vdma_error + nat) \<times> hailo_vdma_descriptors_list" where
  "hailo_vdma_program_descriptors_in_chunk vdma_hw chunk_addr chunk_size dl desc_index
       max_desc_index channel_index data_id =
     (let page_size = desc_page_size dl;
          descs_to_program = descs_needed chunk_size page_size;
          encoded_addr = encode_desc_dma_address_range vdma_hw chunk_addr
                           (chunk_addr + ucast chunk_size) (ucast page_size) channel_index
      in if unat max_desc_index + 1 < unat desc_index + descs_to_program
         then (Inl INSUFFICIENT_DESCRIPTORS, dl)
         else if encoded_addr = INVALID_VDMA_ADDRESS
         then (Inl INVALID_ADDRESS_ENCODING, dl)
         else (Inr descs_to_program,
               program_descs dl desc_index encoded_addr (unat chunk_size)
                 descs_to_program data_id))"

text \<open>
  The contiguous segments of a mapped buffer: the sub-range of \<open>sz\<close> bytes that starts
  \<open>off\<close> bytes into the scatter-gather mapping, segment by segment.
\<close>

fun sg_chunks :: "sg_table \<Rightarrow> nat \<Rightarrow> nat \<Rightarrow> (u64 \<times> u32) list" where
  "sg_chunks [] off sz = []"
| "sg_chunks ((addr, len) # sgs) off sz =
     (if sz = 0 then []
      else if unat len \<le> off then sg_chunks sgs (off - unat len) sz
      else (addr + of_nat off, of_nat (min sz (unat len - off)))
             # sg_chunks sgs 0 (sz - min sz (unat len - off)))"

text \<open>Each segment goes to the chunk programmer; the first error ends the iteration.\<close>

fun program_chunks ::
  "hailo_vdma_hw \<Rightarrow> (u64 \<times> u32) list \<Rightarrow> hailo_vdma_descriptors_list \<Rightarrow> u32 \<Rightarrow> u32 \<Rightarrow> u8 \<Rightarrow> u8
    \<Rightarrow> (vdma_error + nat) \<times> hailo_vdma_descriptors_list" where
  "program_chunks vdma_hw [] dl desc_index max_desc_index channel_index data_id = (Inr 0, dl)"
| "program_chunks vdma_hw ((chunk_addr, chunk_size) # cs) dl desc_index max_desc_index
       channel_index data_id =
     (case hailo_vdma_program_descriptors_in_chunk vdma_hw chunk_addr chunk_size dl desc_index
             max_desc_index channel_index data_id of
        (Inl e, dl') \<Rightarrow> (Inl e, dl')
      | (Inr k, dl') \<Rightarrow>
          (case program_chunks vdma_hw cs dl' (desc_index + of_nat k) max_desc_index
                  channel_index data_id of
             (Inl e, dl'') \<Rightarrow> (Inl e, dl'')
           | (Inr k', dl'') \<Rightarrow> (Inr (k + k'), dl'')))"

text \<open>
  The bound handed to the chunk programmer. The header says that programming may wrap
  around a circular list, so the bound is the largest index of its type; a list that is
  not circular ends at \<open>desc_count - 1\<close>.
\<close>

definition max_desc_index_of :: "hailo_vdma_descriptors_list \<Rightarrow> u32" where
  "max_desc_index_of dl = (if is_circular dl then 0xFFFFFFFF else desc_count dl - 1)"

text \<open>
  The interrupt-domain flags go to the last descriptor of the buffer, which is found from
  the buffer's size alone.
\<close>

definition program_last_desc ::
  "hailo_vdma_hw \<Rightarrow> hailo_vdma_descriptors_list \<Rightarrow> u32 \<Rightarrow> hailo_vdma_mapped_transfer_buffer
    \<Rightarrow> hailo_vdma_interrupts_domain \<Rightarrow> nat \<times> hailo_vdma_descriptors_list" where
  "program_last_desc vdma_hw dl starting_desc buffer last_desc_interrupts =
     (let total_descs = descs_needed (size_bytes buffer) (desc_page_size dl);
          last_index = unat ((starting_desc + of_nat total_descs - 1) AND desc_count_mask dl);
          d = desc_list dl ! last_index
      in (total_descs,
          dl\<lparr>desc_list := (desc_list dl)[last_index :=
               d\<lparr>PageSize_DescControl :=
                    (fst (PageSize_DescControl d),
                     get_interrupts_bitmask vdma_hw last_desc_interrupts)\<rparr>]\<rparr>))"

text \<open>
  Modelled from the spec: the body of \<^verbatim>\<open>hailo_vdma_program_descriptors_list\<close> is missing.
  Section 4.2: it iterates the scatter-gather segments of one mapped buffer, delegating
  each contiguous segment to the chunk programmer; if \<open>should_bind\<close> is false it skips
  this, assuming a prior call already bound the buffer to this region of the list. It
  applies the requested interrupt-domain flags to the last descriptor of the buffer, and
  returns the number of descriptors of the buffer, or the error. The descriptors carry
  the list's data id for DDR addresses.
\<close>

definition hailo_vdma_program_descriptors_list ::
  "hailo_vdma_hw \<Rightarrow> hailo_vdma_descriptors_list \<Rightarrow> u32 \<Rightarrow> hailo_vdma_mapped_transfer_buffer
    \<Rightarrow> bool \<Rightarrow> u8 \<Rightarrow> hailo_vdma_interrupts_domain \<Rightarrow> bool
    \<Rightarrow> (vdma_error + nat) \<times> hailo_vdma_descriptors_list" where
  "hailo_vdma_program_descriptors_list vdma_hw dl starting_desc buffer should_bind
       channel_index last_desc_interrupts debug_run =
     (case (if should_bind
            then program_chunks vdma_hw
                   (sg_chunks (sg_table buffer) (unat (offset buffer)) (unat (size_bytes buffer)))
                   dl starting_desc (max_desc_index_of dl) channel_index (ddr_data_id vdma_hw)
            else (Inr 0, dl)) of
        (Inl e, dl') \<Rightarrow> (Inl e, dl')
      | (Inr k, dl') \<Rightarrow>
          (case program_last_desc vdma_hw dl' starting_desc buffer last_desc_interrupts of
             (total_descs, dl'') \<Rightarrow> (Inr total_descs, dl'')))"

section \<open>The ongoing transfers queue\<close>

text \<open>
  Modelled from the spec: the queue operations are missing. Data model, section 3: head
  and tail are monotonic counters over a fixed-size backing array; the queue is full when
  tail - head equals the capacity; the slot index is the counter modulo the capacity.
  Entries are pushed at the tail, and the oldest entry is at the head.
\<close>

definition ongoing_transfers_size :: "hailo_ongoing_transfers_list \<Rightarrow> nat" where
  "ongoing_transfers_size q = unat (tail q - head q)"

definition ongoing_transfers_full :: "hailo_ongoing_transfers_list \<Rightarrow> bool" where
  "ongoing_transfers_full q = (ongoing_transfers_size q = length (transfers q))"

definition slot_of :: "hailo_ongoing_transfers_list \<Rightarrow> u64 \<Rightarrow> nat" where
  "slot_of q counter = unat counter mod length (transfers q)"

definition ongoing_transfer_push ::
  "hailo_ongoing_transfers_list \<Rightarrow> hailo_ongoing_transfer \<Rightarrow> hailo_ongoing_transfers_list" where
  "ongoing_transfer_push q transfer =
     q\<lparr>transfers := (transfers q)[slot_of q (tail q) := transfer], tail := tail q + 1\<rparr>"

definition ongoing_transfer_front ::
  "hailo_ongoing_transfers_list \<Rightarrow> hailo_ongoing_transfer" where
  "ongoing_transfer_front q = transfers q ! slot_of q (head q)"

definition ongoing_transfer_pop ::
  "hailo_ongoing_transfers_list \<Rightarrow> hailo_ongoing_transfers_list" where
  "ongoing_transfer_pop q = q\<lparr>head := head q + 1\<rparr>"

text \<open>The entries of the queue, oldest first: the slots of the counters from head to tail.\<close>

definition queue_contents :: "hailo_ongoing_transfers_list \<Rightarrow> hailo_ongoing_transfer list" where
  "queue_contents q =
     map (\<lambda>j. transfers q ! slot_of q (head q + of_nat j)) [0..<ongoing_transfers_size q]"

section \<open>Launching a transfer\<close>

text \<open>
  Modelled from the spec: the register accessors are declared in the header, their bodies
  are missing. Section 6: they read and write the num-available and num-processed words
  of the channel's window.
\<close>

definition hailo_vdma_set_num_avail :: "iomem \<Rightarrow> u16 \<Rightarrow> iomem" where
  "hailo_vdma_set_num_avail regs v = regs(CHANNEL_NUM_AVAIL_OFFSET := v)"

definition hailo_vdma_get_num_proc :: "iomem \<Rightarrow> u16" where
  "hailo_vdma_get_num_proc regs = regs CHANNEL_NUM_PROC_OFFSET"

text \<open>
  Step 1 of the launch: every buffer is bound and programmed in turn, each starting where
  the previous one ended; the last buffer carries the interrupt domain of the last
  descriptor. The result is the total number of descriptors and the last descriptor of
  each buffer.
\<close>

fun program_buffers ::
  "hailo_vdma_hw \<Rightarrow> hailo_vdma_descriptors_list \<Rightarrow> u32
    \<Rightarrow> hailo_vdma_mapped_transfer_buffer list \<Rightarrow> bool \<Rightarrow> u8
    \<Rightarrow> hailo_vdma_interrupts_domain \<Rightarrow> bool
    \<Rightarrow> (vdma_error + nat \<times> u16 list) \<times> hailo_vdma_descriptors_list" where
  "program_buffers vdma_hw dl starting_desc [] should_bind channel_index
       last_desc_interrupts debug_run = (Inr (0, []), dl)"
| "program_buffers vdma_hw dl starting_desc (b # bs) should_bind channel_index
       last_desc_interrupts debug_run =
     (case hailo_vdma_program_descriptors_list vdma_hw dl starting_desc b should_bind
             channel_index
             (if bs = [] then last_desc_interrupts else HAILO_VDMA_INTERRUPTS_DOMAIN_NONE)
             debug_run of
        (Inl e, dl') \<Rightarrow> (Inl e, dl')
      | (Inr n, dl') \<Rightarrow>
          (case program_buffers vdma_hw dl' (starting_desc + of_nat n) bs should_bind
                  channel_index last_desc_interrupts debug_run of
             (Inl e, dl'') \<Rightarrow> (Inl e, dl'')
           | (Inr (n', lasts), dl'') \<Rightarrow>
               (Inr (n + n',
                     ucast ((starting_desc + of_nat n - 1) AND desc_count_mask dl) # lasts),
                dl'')))"

text \<open>The interrupt domain of the first descriptor is added to its control bits.\<close>

definition program_first_desc_interrupts ::
  "hailo_vdma_hw \<Rightarrow> hailo_vdma_descriptors_list \<Rightarrow> u32 \<Rightarrow> hailo_vdma_interrupts_domain
    \<Rightarrow> hailo_vdma_descriptors_list" where
  "program_first_desc_interrupts vdma_hw dl starting_desc first_interrupts_domain =
     (let first_index = unat (starting_desc AND desc_count_mask dl);
          d = desc_list dl ! first_index
      in dl\<lparr>desc_list := (desc_list dl)[first_index :=
              d\<lparr>PageSize_DescControl :=
                   (fst (PageSize_DescControl d),
                    snd (PageSize_DescControl d)
                      OR get_interrupts_bitmask vdma_hw first_interrupts_domain)\<rparr>]\<rparr>)"

definition program_transfer ::
  "hailo_vdma_hw \<Rightarrow> hailo_vdma_descriptors_list \<Rightarrow> u32
    \<Rightarrow> hailo_vdma_mapped_transfer_buffer list \<Rightarrow> bool \<Rightarrow> u8
    \<Rightarrow> hailo_vdma_interrupts_domain \<Rightarrow> hailo_vdma_interrupts_domain \<Rightarrow> bool
    \<Rightarrow> (vdma_error + nat \<times> u16 list) \<times> hailo_vdma_descriptors_list" where
  "program_transfer vdma_hw dl starting_desc bufs should_bind channel_index
       first_interrupts_domain last_desc_interrupts debug_run =
     (case program_buffers vdma_hw dl starting_desc bufs should_bind channel_index
             last_desc_interrupts debug_run of
        (Inl e, dl') \<Rightarrow> (Inl e, dl')
      | (Inr r, dl') \<Rightarrow>
          (Inr r, program_first_desc_interrupts vdma_hw dl' starting_desc
                    first_interrupts_domain))"

text \<open>
  The record pushed for a transfer: its terminal descriptor index, its buffers, its dirty
  set (the first descriptor and the last descriptor of each buffer) and the debug flag.
\<close>

definition new_ongoing_transfer ::
  "hailo_vdma_descriptors_list \<Rightarrow> u32 \<Rightarrow> nat \<Rightarrow> u16 list
    \<Rightarrow> hailo_vdma_mapped_transfer_buffer list \<Rightarrow> bool \<Rightarrow> hailo_ongoing_transfer" where
  "new_ongoing_transfer dl starting_desc total_descs lasts bufs debug_run =
     \<lparr>last_desc = ucast ((starting_desc + of_nat total_descs - 1) AND desc_count_mask dl),
      buffers_count = of_nat (length bufs),
      buffers = bufs,
      dirty_descs_count = of_nat (length bufs + 1),
      dirty_descs = ucast (starting_desc AND desc_count_mask dl) # lasts,
      is_debug = debug_run\<rparr>"

text \<open>
  Modelled from the spec: the body of \<^verbatim>\<open>hailo_vdma_launch_transfer\<close> is missing.
  Section 4.3: (1) for each buffer, bind to the descriptor list and invoke the transfer
  programmer, propagating the chosen first and last interrupt domains; (2) on success,
  advance the channel's available-counter by the total descriptors written, modulo
  \<open>2 ^ 16\<close>; (3) mirror the new available-counter to the hardware register; (4) push an
  ongoing transfer record (terminal descriptor index, buffers, dirty set, debug flag) onto
  the queue. It fails with no mutation of the hardware-visible state if descriptor
  programming fails, and with the queue-full condition if the queue has no free slot;
  section 7: no partial hardware-visible state is produced on failure.
\<close>

definition hailo_vdma_launch_transfer ::
  "hailo_vdma_hw \<Rightarrow> hailo_vdma_channel \<Rightarrow> hailo_vdma_descriptors_list \<Rightarrow> u32
    \<Rightarrow> hailo_vdma_mapped_transfer_buffer list \<Rightarrow> bool
    \<Rightarrow> hailo_vdma_interrupts_domain \<Rightarrow> hailo_vdma_interrupts_domain \<Rightarrow> bool
    \<Rightarrow> (vdma_error + nat) \<times> hailo_vdma_channel \<times> hailo_vdma_descriptors_list" where
  "hailo_vdma_launch_transfer vdma_hw channel dl starting_desc bufs should_bind
       first_interrupts_domain last_desc_interrupts debug_run =
     (case program_transfer vdma_hw dl starting_desc bufs should_bind (index channel)
             first_interrupts_domain last_desc_interrupts debug_run of
        (Inl e, dl') \<Rightarrow> (Inl e, channel, dl')
      | (Inr (total_descs, lasts), dl') \<Rightarrow>
          if ongoing_transfers_full (ongoing_transfers channel)
          then (Inl QUEUE_FULL, channel, dl')
          else
            (let new_num_avail = num_avail (state channel) + of_nat total_descs;
                 ongoing_transfer =
                   new_ongoing_transfer dl starting_desc total_descs lasts bufs debug_run
             in (Inr total_descs,
                 channel\<lparr>state := (state channel)\<lparr>num_avail := new_num_avail\<rparr>,
                         host_regs := hailo_vdma_set_num_avail (host_regs channel) new_num_avail,
                         ongoing_transfers :=
                           ongoing_transfer_push (ongoing_transfers channel) ongoing_transfer\<rparr>,
                 dl')))"

section \<open>Completion detection\<close>

text \<open>
  Modelled from the spec: completion detection is missing. Section 4.4: the
  hardware-reported processed-counter is compared against the terminal descriptor index of
  the oldest ongoing transfer; the transfer is complete once the processed-counter,
  interpreted as a ring position, has advanced past its terminal index, by ring distance
  and not by raw numeric comparison. Distances are taken from the processed-counter of the
  channel state, the position up to which completions were read before.
\<close>

definition ring_distance :: "u32 \<Rightarrow> u16 \<Rightarrow> u16 \<Rightarrow> nat" where
  "ring_distance m a b = unat ((ucast (b - a) :: u32) AND m)"

definition is_transfer_complete ::
  "hailo_vdma_channel \<Rightarrow> hailo_ongoing_transfer \<Rightarrow> u16 \<Rightarrow> bool" where
  "is_transfer_complete channel transfer hw_num_proc =
     (let m = state_desc_count_mask (state channel);
          p = num_proc (state channel)
      in ring_distance m p (last_desc transfer) < ring_distance m p hw_num_proc)"

text \<open>
  The drain loop of one channel: while the queue is not empty and its oldest transfer is
  complete, the transfer is reported, the processed-counter of the channel state moves
  behind its terminal descriptor, and the entry is popped. For a debug transfer the
  status words of its descriptors are checked; the check itself (\<open>validate\<close>) reads
  the descriptors through the channel and is a parameter. The result is the transfers
  reported, in the order of the reports, whether every check succeeded, and the channel.
\<close>

function drain_completed ::
  "(hailo_vdma_channel \<Rightarrow> hailo_ongoing_transfer \<Rightarrow> u16 \<Rightarrow> bool) \<Rightarrow> hailo_vdma_channel \<Rightarrow> u16
    \<Rightarrow> (hailo_ongoing_transfer list \<times> bool) \<times> hailo_vdma_channel" where
  "drain_completed validate channel hw_num_proc =
     (if ongoing_transfers_size (ongoing_transfers channel) = 0 then (([], True), channel)
      else
        (let cur_transfer = ongoing_transfer_front (ongoing_transfers channel)
         in if \<not> is_transfer_complete channel cur_transfer hw_num_proc
            then (([], True), channel)
            else
              (let ok = (if is_debug cur_transfer
                         then validate channel cur_transfer hw_num_proc else True);
                   channel' = channel
                     \<lparr>state := (state channel)
                        \<lparr>num_proc := ucast ((ucast (last_desc cur_transfer + 1) :: u32)
                                       AND state_desc_count_mask (state channel))\<rparr>,
                      ongoing_transfers := ongoing_transfer_pop (ongoing_transfers channel)\<rparr>
               in case drain_completed validate channel' hw_num_proc of
                    ((completed, ok'), channel'') \<Rightarrow>
                      ((cur_transfer # completed, ok \<and> ok'), channel''))))"
  by pat_completeness auto
termination
proof (relation "measure (\<lambda>(validate, channel, hw_num_proc).
                   ongoing_transfers_size (ongoing_transfers channel))")
  show "wf (measure (\<lambda>(validate, channel, hw_num_proc).
              ongoing_transfers_size (ongoing_transfers channel)))"
    by simp
next
  fix validate :: "hailo_vdma_channel \<Rightarrow> hailo_ongoing_transfer \<Rightarrow> u16 \<Rightarrow> bool"
  fix channel :: hailo_vdma_channel and hw_num_proc :: u16
  fix cur_transfer ok channel'
  assume nonempty: "ongoing_transfers_size (ongoing_transfers channel) \<noteq> 0"
    and ch': "channel' = channel
                \<lparr>state := (state channel)
                   \<lparr>num_proc := ucast ((ucast (last_desc cur_transfer + 1) :: u32)
                                  AND state_desc_count_mask (state channel))\<rparr>,
                 ongoing_transfers := ongoing_transfer_pop (ongoing_transfers channel)\<rparr>"
  let ?q = "ongoing_transfers channel"
  have "tail ?q - head ?q \<noteq> 0"
    using nonempty by (simp add: ongoing_transfers_size_def unat_eq_0)
  then have "unat (tail ?q - head ?q - 1) < unat (tail ?q - head ?q)"
    by (rule measure_unat)
  moreover have "tail ?q - (head ?q + 1) = tail ?q - head ?q - 1"
    by simp
  ultimately have "unat (tail ?q - (head ?q + 1)) < unat (tail ?q - head ?q)"
    by (simp only:)
  then show "((validate, channel', hw_num_proc), (validate, channel, hw_num_proc))
      \<in> measure (\<lambda>(validate, channel, hw_num_proc).
                   ongoing_transfers_size (ongoing_transfers channel))"
    by (simp add: ch' ongoing_transfers_size_def ongoing_transfer_pop_def)
qed

text \<open>
  Modelled from the spec: the structure the wait request returns is declared in another
  header. Section 4.5: per-channel completion counts are appended to it, and its
  channel-count field is cumulative; section 4.4: a failed status check is surfaced to
  the caller.
\<close>

record hailo_vdma_interrupts_channel_data =
  irq_engine_index :: u8
  irq_channel_index :: u8
  transfers_completed :: u8
  validation_success :: bool

record hailo_vdma_interrupts_wait_params =
  channels_count :: u8
  irq_data :: "hailo_vdma_interrupts_channel_data list"

text \<open>
  The loop \<^verbatim>\<open>for_each_vdma_channel\<close> over the channels array, \<open>channel_index\<close> counting
  the position: a channel whose bit is not set in the bitmap is skipped; a signaled
  channel is drained at the processed-counter its register window reports, masked to a
  ring position. The last component collects the calls of the completion callback.
\<close>

fun fill_channels ::
  "(hailo_vdma_channel \<Rightarrow> hailo_ongoing_transfer \<Rightarrow> u16 \<Rightarrow> bool)
    \<Rightarrow> hailo_vdma_interrupts_wait_params \<Rightarrow> u8 \<Rightarrow> u32 \<Rightarrow> nat \<Rightarrow> hailo_vdma_channel list
    \<Rightarrow> hailo_vdma_interrupts_wait_params \<times> hailo_vdma_channel list
        \<times> hailo_ongoing_transfer list" where
  "fill_channels validate params e irq_channels_bitmap channel_index [] = (params, [], [])"
| "fill_channels validate params e irq_channels_bitmap channel_index (channel # chs) =
     (if \<not> bit irq_channels_bitmap channel_index
      then (case fill_channels validate params e irq_channels_bitmap (Suc channel_index) chs of
              (params', chs', calls) \<Rightarrow> (params', channel # chs', calls))
      else
        (let hw_num_proc =
               ucast ((ucast (hailo_vdma_get_num_proc (host_regs channel)) :: u32)
                        AND state_desc_count_mask (state channel))
         in case drain_completed validate channel hw_num_proc of
              ((completed, ok), channel') \<Rightarrow>
                (let params1 = params
                       \<lparr>channels_count := channels_count params + 1,
                        irq_data := irq_data params @
                          [\<lparr>irq_engine_index = e,
                            irq_channel_index = of_nat channel_index,
                            transfers_completed = of_nat (length completed),
                            validation_success = ok\<rparr>]\<rparr>
                 in case fill_channels validate params1 e irq_channels_bitmap
                           (Suc channel_index) chs of
                      (params', chs', calls) \<Rightarrow> (params', channel' # chs', completed @ calls))))"

text \<open>
  Modelled from the spec: the body of \<^verbatim>\<open>hailo_vdma_engine_fill_irq_data\<close> is missing.
  Section 4.5: for each signaled channel it drains the newly completed ongoing transfers,
  invokes the completion callback once per completed transfer, and appends the
  per-channel completion counts to the request's data, which may already hold entries of
  other engines.
\<close>

definition hailo_vdma_engine_fill_irq_data ::
  "hailo_vdma_interrupts_wait_params \<Rightarrow> hailo_vdma_engine \<Rightarrow> u32
    \<Rightarrow> (hailo_vdma_channel \<Rightarrow> hailo_ongoing_transfer \<Rightarrow> u16 \<Rightarrow> bool)
    \<Rightarrow> hailo_vdma_interrupts_wait_params \<times> hailo_vdma_engine \<times> hailo_ongoing_transfer list"
  where
  "hailo_vdma_engine_fill_irq_data params engine irq_channels_bitmap validate =
     (case fill_channels validate params (engine_index engine) irq_channels_bitmap 0
             (channels engine) of
        (params', chs', calls) \<Rightarrow> (params', engine\<lparr>channels := chs'\<rparr>, calls))"

section \<open>A caller submitting transfers one after the other\<close>

record launch_request =
  rq_starting_desc :: u32
  rq_buffers :: "hailo_vdma_mapped_transfer_buffer list"
  rq_should_bind :: bool
  rq_first_interrupts_domain :: hailo_vdma_interrupts_domain
  rq_last_desc_interrupts :: hailo_vdma_interrupts_domain
  rq_is_debug :: bool

definition launch_request_on ::
  "hailo_vdma_hw \<Rightarrow> hailo_vdma_channel \<Rightarrow> hailo_vdma_descriptors_list \<Rightarrow> launch_request
    \<Rightarrow> (vdma_error + nat) \<times> hailo_vdma_channel \<times> hailo_vdma_descriptors_list" where
  "launch_request_on vdma_hw channel dl r =
     hailo_vdma_launch_transfer vdma_hw channel dl (rq_starting_desc r) (rq_buffers r)
       (rq_should_bind r) (rq_first_interrupts_domain r) (rq_last_desc_interrupts r)
       (rq_is_debug r)"

fun launch_all ::
  "hailo_vdma_hw \<Rightarrow> hailo_vdma_channel \<Rightarrow> hailo_vdma_descriptors_list \<Rightarrow> launch_request list
    \<Rightarrow> (vdma_error + nat) list \<times> hailo_vdma_channel \<times> hailo_vdma_descriptors_list" where
  "launch_all vdma_hw channel dl [] = ([], channel, dl)"
| "launch_all vdma_hw channel dl (r # rs) =
     (case launch_request_on vdma_hw channel dl r of
        (res, channel', dl') \<Rightarrow>
          (case launch_all vdma_hw channel' dl' rs of
             (ress, channel'', dl'') \<Rightarrow> (res # ress, channel'', dl'')))"

text \<open>
  Descriptor programming succeeds for every request of the sequence, each on the list as
  the requests before it left it.
\<close>

fun all_program_ok ::
  "hailo_vdma_hw \<Rightarrow> u8 \<Rightarrow> hailo_vdma_descriptors_list \<Rightarrow> launch_request list \<Rightarrow> bool" where
  "all_program_ok vdma_hw channel_index dl [] = True"
| "all_program_ok vdma_hw channel_index dl (r # rs) =
     (case program_transfer vdma_hw dl (rq_starting_desc r) (rq_buffers r) (rq_should_bind r)
             channel_index (rq_first_interrupts_domain r) (rq_last_desc_interrupts r)
             (rq_is_debug r) of
        (Inl e, dl') \<Rightarrow> False
      | (Inr r', dl') \<Rightarrow> all_program_ok vdma_hw channel_index dl' rs)"

section \<open>Word and mask lemmas\<close>

lemma nearest_pow2_from_pow2:
  "\<exists>k. nearest_pow2_from (2 ^ j) n = 2 ^ k \<and> n \<le> 2 ^ k"
proof (induction "2 ^ j :: nat" n arbitrary: j rule: nearest_pow2_from.induct)
  case (1 n)
  show ?case
  proof (cases "n \<le> 2 ^ j")
    case True
    then show ?thesis by (subst nearest_pow2_from.simps) auto
  next
    case False
    have "\<exists>k. nearest_pow2_from (2 ^ Suc j) n = 2 ^ k \<and> n \<le> 2 ^ k"
      using False by (intro "1.hyps") auto
    then show ?thesis
      using False by (subst nearest_pow2_from.simps) auto
  qed
qed

lemma nearest_pow2_is_pow2: "\<exists>k. nearest_pow2 n = 2 ^ k \<and> n \<le> 2 ^ k"
  using nearest_pow2_from_pow2 [of 0 n] by (simp add: nearest_pow2_def)

lemma nearest_pow2_from_le:
  "j \<le> k \<Longrightarrow> nearest_pow2_from (2 ^ j) (2 ^ k) = 2 ^ k"
proof (induction "k - j" arbitrary: j)
  case 0
  then show ?case by (subst nearest_pow2_from.simps) auto
next
  case (Suc d)
  then have "j < k" by simp
  then have "\<not> (2::nat) ^ k \<le> 2 ^ j" by simp
  moreover have "nearest_pow2_from (2 ^ Suc j) (2 ^ k) = 2 ^ k"
    using Suc by (intro Suc.hyps) auto
  ultimately show ?case by (subst nearest_pow2_from.simps) auto
qed

lemma nearest_pow2_pow2: "nearest_pow2 (2 ^ k) = 2 ^ k"
  using nearest_pow2_from_le [of 0 k] by (simp add: nearest_pow2_def)

lemma mask_of_unat:
  fixes m :: u32
  assumes "unat m = 2 ^ k - 1"
  shows "m = mask k"
  by (metis assms dual_order.refl le_unat_uoi mask_nat_def of_nat_mask_eq
    unsigned_word_eqI)

lemma and_mask_mod: "(i :: u32) AND mask k = i mod 2 ^ k"
  by (metis take_bit_eq_mod take_bit_eq_mask)

lemma unat_2p_u32:
  assumes "k < 32"
  shows "unat (2 ^ k :: u32) = 2 ^ k"
proof -
  have "(2::nat) ^ k < 2 ^ 32"
    using assms by (intro power_strict_increasing) auto
  moreover have "unat (of_nat (2 ^ k) :: u32) = 2 ^ k mod 2 ^ 32"
    by (simp only: unat_of_nat) simp
  ultimately show ?thesis by simp
qed

lemma unat_and_mask: "unat ((i :: u32) AND mask k) = unat i mod 2 ^ k"
proof -
  have "unat (i AND mask k) = unat (take_bit k i)"
    by (simp only: take_bit_eq_mask)
  also have "\<dots> = take_bit k (unat i)"
    by (simp only: unsigned_take_bit_eq)
  finally show ?thesis
    by (simp only: take_bit_eq_mod)
qed

lemma and_mask_sub:
  assumes "k < 32" and "2 ^ k \<le> (i :: u32)"
  shows "(i - 2 ^ k) AND mask k = i AND mask k"
proof -
  have le: "2 ^ k \<le> unat i"
    using assms by (simp add: word_le_nat_alt unat_2p_u32)
  have "unat (i - 2 ^ k) = unat i - 2 ^ k"
    using assms by (simp add: unat_sub unat_2p_u32)
  then have "unat ((i - 2 ^ k) AND mask k) = (unat i - 2 ^ k) mod 2 ^ k"
    by (simp only: unat_and_mask)
  also have "\<dots> = unat i mod 2 ^ k"
    using le by (simp add: le_mod_geq)
  finally show ?thesis
    by (simp only: word_unat_eq_iff unat_and_mask)
qed

lemma and_mask_self: "unat (i :: u32) < 2 ^ k \<Longrightarrow> i AND mask k = i"
  by (simp add: word_unat_eq_iff unat_and_mask)

lemma any_disabled_iff:
  "(bm \<noteq> (bm AND en)) = (\<exists>n. bit bm n \<and> \<not> bit en n)" for bm :: u32
proof
  assume ne: "bm \<noteq> bm AND en"
  show "\<exists>n. bit bm n \<and> \<not> bit en n"
  proof (rule ccontr)
    assume "\<nexists>n. bit bm n \<and> \<not> bit en n"
    then have "bm AND en = bm"
      by (intro bit_eqI) (auto simp: bit_and_iff)
    with ne show False by simp
  qed
next
  assume "\<exists>n. bit bm n \<and> \<not> bit en n"
  then obtain n where n: "bit bm n" "\<not> bit en n" by blast
  have "\<not> bit (bm AND en) n"
    using n by (simp add: bit_and_iff)
  with n(1) show "bm \<noteq> bm AND en" by metis
qed

lemma any_interrupt_iff:
  "(bm AND ic \<noteq> 0) = (\<exists>n. bit bm n \<and> bit ic n)" for bm :: u32
proof
  assume ne: "bm AND ic \<noteq> 0"
  show "\<exists>n. bit bm n \<and> bit ic n"
  proof (rule ccontr)
    assume "\<nexists>n. bit bm n \<and> bit ic n"
    then have "bm AND ic = 0"
      by (intro bit_eqI) (auto simp: bit_and_iff)
    with ne show False by simp
  qed
next
  assume "\<exists>n. bit bm n \<and> bit ic n"
  then obtain n where n: "bit bm n" "bit ic n" by blast
  have "bit (bm AND ic) n"
    using n by (simp add: bit_and_iff)
  then show "bm AND ic \<noteq> 0" by auto
qed

section \<open>Claims on the interrupt bitmap protocol\<close>

text \<open>
  C1. For every engine state and every requested bitmap,
  \<^verbatim>\<open>hailo_vdma_engine_read_interrupts\<close> returns exactly
  \<open>requested_bitmap AND enabled_channels AND interrupted_channels\<close>; afterwards
  \<open>interrupted_channels\<close> is the old value with exactly the returned bits cleared (bit by
  bit: a bit is set afterwards if and only if it was set before and was not returned), every
  returned bit was set in \<open>interrupted_channels\<close> before, and no returned bit lies outside
  \<open>enabled_channels\<close>.
\<close>

theorem read_interrupts_returns_and_clears:
  "fst (hailo_vdma_engine_read_interrupts engine requested_bitmap) =
     requested_bitmap AND enabled_channels engine AND interrupted_channels engine
   \<and> interrupted_channels (snd (hailo_vdma_engine_read_interrupts engine requested_bitmap)) =
     interrupted_channels engine
       AND NOT (fst (hailo_vdma_engine_read_interrupts engine requested_bitmap))
   \<and> (\<forall>n. bit (interrupted_channels
                (snd (hailo_vdma_engine_read_interrupts engine requested_bitmap))) n =
            (bit (interrupted_channels engine) n
             \<and> \<not> bit (fst (hailo_vdma_engine_read_interrupts engine requested_bitmap)) n))
   \<and> fst (hailo_vdma_engine_read_interrupts engine requested_bitmap)
       AND interrupted_channels engine =
     fst (hailo_vdma_engine_read_interrupts engine requested_bitmap)
   \<and> fst (hailo_vdma_engine_read_interrupts engine requested_bitmap)
       AND NOT (enabled_channels engine) = 0"
  by (auto simp: hailo_vdma_engine_read_interrupts_def Let_def bit_eq_iff bit_and_iff bit_not_iff bit_or_iff dest: bit_imp_le_length)

text \<open>
  C5. \<^verbatim>\<open>hailo_vdma_engine_got_interrupt\<close> returns true if and only if some requested
  channel's bit is missing from \<open>enabled_channels\<close> or some requested channel's bit is set
  in \<open>interrupted_channels\<close>. In the scenario of two channels with channel 1 disabled,
  \<open>got_interrupt 0b11\<close> is true when only channel 0's interrupt is pending, and stays true
  when no interrupt is pending at all: the disabled channel alone decides.
\<close>

theorem got_interrupt_iff:
  "fst (hailo_vdma_engine_got_interrupt engine channels_bitmap) =
     ((\<exists>n. bit channels_bitmap n \<and> \<not> bit (enabled_channels engine) n)
      \<or> (\<exists>n. bit channels_bitmap n \<and> bit (interrupted_channels engine) n))
   \<and> fst (hailo_vdma_engine_got_interrupt
        \<lparr>engine_index = i, enabled_channels = 1, interrupted_channels = 1, channels = chs\<rparr> 3)
   \<and> fst (hailo_vdma_engine_got_interrupt
        \<lparr>engine_index = i, enabled_channels = 1, interrupted_channels = 0, channels = chs\<rparr> 3)"
  by (simp add: hailo_vdma_engine_got_interrupt_def Let_def any_disabled_iff any_interrupt_iff
      )

text \<open>
  C10. \<^verbatim>\<open>hailo_vdma_engine_got_interrupt\<close> leaves the engine as it was.
  \<^verbatim>\<open>hailo_vdma_engine_read_interrupts\<close> changes no field other than
  \<open>interrupted_channels\<close>: the engine index, \<open>enabled_channels\<close> and the channels array are
  unchanged. With a zero requested bitmap it returns 0 and leaves the whole engine, so also
  \<open>interrupted_channels\<close>, unchanged.
\<close>

theorem interrupt_queries_frame:
  "snd (hailo_vdma_engine_got_interrupt engine channels_bitmap) = engine
   \<and> snd (hailo_vdma_engine_read_interrupts engine requested_bitmap) =
       engine\<lparr>interrupted_channels :=
         interrupted_channels (snd (hailo_vdma_engine_read_interrupts engine requested_bitmap))\<rparr>
   \<and> engine_index (snd (hailo_vdma_engine_read_interrupts engine requested_bitmap)) =
       engine_index engine
   \<and> enabled_channels (snd (hailo_vdma_engine_read_interrupts engine requested_bitmap)) =
       enabled_channels engine
   \<and> channels (snd (hailo_vdma_engine_read_interrupts engine requested_bitmap)) =
       channels engine
   \<and> hailo_vdma_engine_read_interrupts engine 0 = (0, engine)"
  by (simp add: hailo_vdma_engine_got_interrupt_def hailo_vdma_engine_read_interrupts_def Let_def)

lemma mask_ok_is_mask:
  assumes "desc_count_mask_ok dl"
  shows "\<exists>k. desc_count_mask dl = mask k \<and> unat (desc_count dl) \<le> 2 ^ k"
proof -
  obtain k where k: "nearest_pow2 (unat (desc_count dl)) = 2 ^ k" "unat (desc_count dl) \<le> 2 ^ k"
    using nearest_pow2_is_pow2 by blast
  with assms have "unat (desc_count_mask dl) = 2 ^ k - 1"
    by (simp add: desc_count_mask_ok_def)
  then have "desc_count_mask dl = mask k" by (rule mask_of_unat)
  with k show ?thesis by blast
qed

lemma mask_ok_pow2:
  assumes "desc_count_mask_ok dl" and "desc_count dl = 2 ^ k" and "k < 32"
  shows "desc_count_mask dl = mask k"
proof -
  have "unat (desc_count dl) = 2 ^ k" using assms(2,3) by (simp add: unat_2p_u32)
  then have "unat (desc_count_mask dl) = 2 ^ k - 1"
    using assms(1) by (simp add: desc_count_mask_ok_def nearest_pow2_pow2)
  then show ?thesis by (rule mask_of_unat)
qed

section \<open>Claim on the index mask\<close>

text \<open>
  C6. Let the mask of a descriptors list be the nearest power of two at or above
  \<open>desc_count\<close>, minus 1. If \<open>desc_count\<close> is a power of two \<open>2 ^ k\<close> (\<open>k < 32\<close>, the
  counter is a \<^verbatim>\<open>u32\<close>), then for every index \<open>i\<close>, \<open>i AND desc_count_mask = i mod desc_count\<close>,
  and for every \<open>i \<ge> desc_count\<close>,
  \<open>i AND desc_count_mask = (i - desc_count) AND desc_count_mask\<close>. Whether \<open>desc_count\<close> is a
  power of two or not, every index \<open>i < desc_count\<close> satisfies \<open>i AND desc_count_mask = i\<close>.
\<close>

theorem desc_count_mask_wraparound:
  assumes "desc_count_mask_ok dl"
  shows "(\<forall>k<32. desc_count dl = 2 ^ k \<longrightarrow>
            (\<forall>i. i AND desc_count_mask dl = i mod desc_count dl)
          \<and> (\<forall>i\<ge>desc_count dl.
                i AND desc_count_mask dl = (i - desc_count dl) AND desc_count_mask dl))
       \<and> (\<forall>i<desc_count dl. i AND desc_count_mask dl = i)"
proof (intro conjI allI impI)
  fix k i assume "k < (32::nat)" "desc_count dl = 2 ^ k"
  then have m: "desc_count_mask dl = mask k" using assms mask_ok_pow2 by blast
  show "i AND desc_count_mask dl = i mod desc_count dl"
    by (simp only: m \<open>desc_count dl = 2 ^ k\<close> and_mask_mod)
  assume "desc_count dl \<le> i"
  then show "i AND desc_count_mask dl = (i - desc_count dl) AND desc_count_mask dl"
    using \<open>k < 32\<close> by (simp only: m \<open>desc_count dl = 2 ^ k\<close> and_mask_sub)
next
  fix i assume "i < desc_count dl"
  obtain k where k: "desc_count_mask dl = mask k" "unat (desc_count dl) \<le> 2 ^ k"
    using mask_ok_is_mask [OF assms] by blast
  have "unat i < unat (desc_count dl)" using \<open>i < desc_count dl\<close> by (simp add: word_less_nat_alt)
  with k have "unat i < 2 ^ k" by simp
  then show "i AND desc_count_mask dl = i" by (simp only: k and_mask_self)
qed


theorem desc_count_mask_wraparound_witness:
  "desc_count_mask_ok \<lparr>desc_list = [], desc_count = 16, desc_count_mask = 15,
      desc_page_size = 4096, is_circular = True\<rparr>
   \<and> (4::nat) < 32 \<and> (16::u32) = 2 ^ 4 \<and> (16::u32) \<le> 21 \<and> (7::u32) < 16
   \<and> (21::u32) AND 15 = 21 mod 16
   \<and> (21::u32) AND 15 = (21 - 16) AND 15
   \<and> (7::u32) AND 15 = 7"
  using desc_count_mask_wraparound [of "\<lparr>desc_list = [], desc_count = 16, desc_count_mask = 15,
      desc_page_size = 4096, is_circular = True\<rparr>"]
  by (simp add: desc_count_mask_ok_def nearest_pow2_def)

end
